theory Spec2Isabelle
  imports Main
begin

section \<open>The preprocessor state\<close>

text \<open>
  \<^verbatim>\<open>include/yarp/defines.h\<close> consists of preprocessing directives only. What it
  does is change the macro table of the translation unit that includes it, so the model is a
  state transformer on that table.

  A macro name is an identifier. A replacement list is the sequence of the spellings of its
  preprocessing tokens, together with their white-space separation: where two neighbouring
  tokens are separated by white space, the list has the element \<open>white_space\<close> between
  them. ISO C 6.10.3p1 calls two replacement lists identical if and only if their tokens
  have the same number, ordering, spelling and white-space separation, all white-space
  separations being considered identical; so one marker stands for any amount of white
  space, white space before the first and after the last token is not part of the list, and
  two replacement lists are identical exactly when the two lists are equal. The marker is
  spelled as a single space, which is the spelling of no preprocessing token.

  A macro left by the including context may be object-like or function-like; the header
  itself only ever defines object-like ones.
\<close>

type_synonym ident = string
type_synonym pp_token = string

definition white_space :: pp_token where
  "white_space = '' ''"

datatype macro =
    ObjectLike "pp_token list"
  | FunctionLike "ident list" "pp_token list"

text \<open>
  Besides the macro table the state keeps the diagnostics: the names for which a
  \<^verbatim>\<open>#define\<close> met an existing, different definition (ISO C 6.10.3p2 forbids that
  redefinition; GCC, Clang and MSVC report it and go on with the new definition).
\<close>

record pp_state =
  macros :: "ident \<rightharpoonup> macro"
  conflicts :: "ident list"

definition defined :: "pp_state \<Rightarrow> ident \<Rightarrow> bool" where
  "defined s n = (macros s n \<noteq> None)"

section \<open>The directives the header uses\<close>

text \<open>
  \<^verbatim>\<open>#define n body\<close>: the name is bound to the object-like macro with that
  replacement list. Redefining a name with the identical object-like definition (the same
  tokens with the same white-space separation) is allowed and silent; any other
  redefinition, also one that differs in white-space separation only, is recorded as a
  conflict, and the new definition takes effect. (The constant is called \<open>pp_define\<close> because \<open>define\<close> is a keyword of Isar.)
\<close>

definition pp_define :: "ident \<Rightarrow> pp_token list \<Rightarrow> pp_state \<Rightarrow> pp_state" where
  "pp_define n body s =
     s\<lparr>macros := (macros s)(n \<mapsto> ObjectLike body),
       conflicts :=
         (case macros s n of
            None \<Rightarrow> conflicts s
          | Some m \<Rightarrow> if m = ObjectLike body then conflicts s else conflicts s @ [n])\<rparr>"

text \<open>A group of directives is processed top to bottom.\<close>

definition block :: "(pp_state \<Rightarrow> pp_state) list \<Rightarrow> pp_state \<Rightarrow> pp_state" where
  "block ds s = fold (\<lambda>d. d) ds s"

text \<open>\<^verbatim>\<open>#ifndef n ... #endif\<close>: the group is processed only if the name is not defined.\<close>

definition ifndef :: "ident \<Rightarrow> (pp_state \<Rightarrow> pp_state) list \<Rightarrow> pp_state \<Rightarrow> pp_state" where
  "ifndef n ds s = (if defined s n then s else block ds s)"

text \<open>\<^verbatim>\<open>#if defined(n) ... #else ... #endif\<close>: exactly one of the two groups is processed.\<close>

definition if_defined ::
  "ident \<Rightarrow> (pp_state \<Rightarrow> pp_state) list \<Rightarrow> (pp_state \<Rightarrow> pp_state) list \<Rightarrow> pp_state \<Rightarrow> pp_state" where
  "if_defined n ds es s = (if defined s n then block ds s else block es s)"

section \<open>The replacement lists\<close>

text \<open>A string literal token is spelled with its double quotes.\<close>

definition string_literal :: "string \<Rightarrow> pp_token" where
  "string_literal s = CHR 0x22 # s @ [CHR 0x22]"

text \<open>
  None of the header's replacement lists has white space between its tokens.
  \<^verbatim>\<open>__declspec(dllimport)\<close> and \<^verbatim>\<open>__declspec(dllexport)\<close>:
\<close>

definition declspec_dllimport :: "pp_token list" where
  "declspec_dllimport = [''__declspec'', ''('', ''dllimport'', '')'']"

definition declspec_dllexport :: "pp_token list" where
  "declspec_dllexport = [''__declspec'', ''('', ''dllexport'', '')'']"

text \<open>\<^verbatim>\<open>__attribute__((__visibility__("default")))\<close>\<close>

definition attribute_visibility_default :: "pp_token list" where
  "attribute_visibility_default =
     [''__attribute__'', ''('', ''('', ''__visibility__'', ''('',
      string_literal ''default'', '')'', '')'', '')'']"

text \<open>\<^verbatim>\<open>__attribute__((unused))\<close>\<close>

definition attribute_unused :: "pp_token list" where
  "attribute_unused = [''__attribute__'', ''('', ''('', ''unused'', '')'', '')'']"

section \<open>The header\<close>

text \<open>
  The header, directive by directive (comments are white space to the preprocessor):
  \<^verbatim>\<open>
  #ifndef YARP_DEFINES_H
  #define YARP_DEFINES_H
  #ifndef _XOPEN_SOURCE
  #define _XOPEN_SOURCE 700
  #endif
  #ifndef YP_IMPORTED_FUNCTION
  #if defined(_WIN32)
  # define YP_IMPORTED_FUNCTION __declspec(dllimport)
  #else
  # define YP_IMPORTED_FUNCTION __attribute__((__visibility__("default")))
  #endif
  #endif
  #ifndef YP_EXPORTED_FUNCTION
  #if defined(_WIN32)
  # define YP_EXPORTED_FUNCTION __declspec(dllexport)
  #else
  # define YP_EXPORTED_FUNCTION __attribute__((__visibility__("default")))
  #endif
  #endif
  #if defined(_WIN32)
  # define YP_ATTRIBUTE_UNUSED
  #else
  # define YP_ATTRIBUTE_UNUSED __attribute__((unused))
  #endif
  #endif
  \<close>
\<close>

definition defines_h :: "pp_state \<Rightarrow> pp_state" where
  "defines_h =
     ifndef ''YARP_DEFINES_H''
      [pp_define ''YARP_DEFINES_H'' [],
       ifndef ''_XOPEN_SOURCE''
        [pp_define ''_XOPEN_SOURCE'' [''700'']],
       ifndef ''YP_IMPORTED_FUNCTION''
        [if_defined ''_WIN32''
          [pp_define ''YP_IMPORTED_FUNCTION'' declspec_dllimport]
          [pp_define ''YP_IMPORTED_FUNCTION'' attribute_visibility_default]],
       ifndef ''YP_EXPORTED_FUNCTION''
        [if_defined ''_WIN32''
          [pp_define ''YP_EXPORTED_FUNCTION'' declspec_dllexport]
          [pp_define ''YP_EXPORTED_FUNCTION'' attribute_visibility_default]],
       if_defined ''_WIN32''
        [pp_define ''YP_ATTRIBUTE_UNUSED'' []]
        [pp_define ''YP_ATTRIBUTE_UNUSED'' attribute_unused]]"

text \<open>
  A translation unit as the including context left it: the given macros, each object-like
  with the given replacement list (tokens and \<open>white_space\<close> markers), and no diagnostic
  so far.
\<close>

definition predefined :: "(ident \<times> pp_token list) list \<Rightarrow> pp_state" where
  "predefined ps = \<lparr>macros = map_of (map (\<lambda>(n, body). (n, ObjectLike body)) ps), conflicts = []\<rparr>"

section \<open>Basic facts about the directives\<close>

lemma block_Nil: "block [] s = s"
  by (simp add: block_def)

lemma block_Cons: "block (d # ds) s = block ds (d s)"
  by (simp add: block_def)

text \<open>The three shapes of conditional definition that occur in the header.\<close>

lemma ifndef_pp_define:
  "ifndef n [pp_define n b] s =
     (if defined s n then s else s\<lparr>macros := (macros s)(n \<mapsto> ObjectLike b)\<rparr>)"
  by (simp add: ifndef_def block_Cons block_Nil pp_define_def defined_def)

lemma if_defined_pp_define:
  "if_defined w [pp_define n a] [pp_define n b] s =
     pp_define n (if defined s w then a else b) s"
  by (simp add: if_defined_def block_Cons block_Nil)

lemma ifndef_if_defined_pp_define:
  "ifndef n [if_defined w [pp_define n a] [pp_define n b]] s =
     (if defined s n then s
      else s\<lparr>macros := (macros s)(n \<mapsto> ObjectLike (if defined s w then a else b))\<rparr>)"
  by (simp add: ifndef_def block_Cons block_Nil if_defined_pp_define pp_define_def defined_def)

text \<open>The header as the composition of its five top-level directives under the guard.\<close>

lemma defines_h_steps:
  "defines_h s =
     (if defined s ''YARP_DEFINES_H'' then s
      else
        if_defined ''_WIN32''
          [pp_define ''YP_ATTRIBUTE_UNUSED'' []]
          [pp_define ''YP_ATTRIBUTE_UNUSED'' attribute_unused]
        (ifndef ''YP_EXPORTED_FUNCTION''
          [if_defined ''_WIN32''
            [pp_define ''YP_EXPORTED_FUNCTION'' declspec_dllexport]
            [pp_define ''YP_EXPORTED_FUNCTION'' attribute_visibility_default]]
        (ifndef ''YP_IMPORTED_FUNCTION''
          [if_defined ''_WIN32''
            [pp_define ''YP_IMPORTED_FUNCTION'' declspec_dllimport]
            [pp_define ''YP_IMPORTED_FUNCTION'' attribute_visibility_default]]
        (ifndef ''_XOPEN_SOURCE'' [pp_define ''_XOPEN_SOURCE'' [''700'']]
        (pp_define ''YARP_DEFINES_H'' [] s)))))"
  by (simp only: defines_h_def ifndef_def [of "''YARP_DEFINES_H''"] block_Cons block_Nil)


lemma macros_ifndef_pp_define:
  "macros (ifndef n [pp_define n b] s) k =
     (if k = n then (case macros s n of None \<Rightarrow> Some (ObjectLike b) | Some m \<Rightarrow> Some m)
      else macros s k)"
  by (auto simp: ifndef_pp_define defined_def)

lemma conflicts_ifndef_pp_define:
  "conflicts (ifndef n [pp_define n b] s) = conflicts s"
  by (simp add: ifndef_pp_define)

lemma defined_ifndef_pp_define:
  "defined (ifndef n [pp_define n b] s) k = (k = n \<or> defined s k)"
  by (auto simp: ifndef_pp_define defined_def)

lemma macros_ifndef_if_defined:
  "macros (ifndef n [if_defined w [pp_define n a] [pp_define n b]] s) k =
     (if k = n then
        (case macros s n of
           None \<Rightarrow> Some (ObjectLike (if defined s w then a else b))
         | Some m \<Rightarrow> Some m)
      else macros s k)"
  by (auto simp: ifndef_if_defined_pp_define defined_def)

lemma conflicts_ifndef_if_defined:
  "conflicts (ifndef n [if_defined w [pp_define n a] [pp_define n b]] s) = conflicts s"
  by (simp add: ifndef_if_defined_pp_define)

lemma defined_ifndef_if_defined:
  "defined (ifndef n [if_defined w [pp_define n a] [pp_define n b]] s) k =
     (k = n \<or> defined s k)"
  by (auto simp: ifndef_if_defined_pp_define defined_def)

lemma macros_pp_define:
  "macros (pp_define n body s) k = (if k = n then Some (ObjectLike body) else macros s k)"
  by (simp add: pp_define_def)

lemma defined_pp_define:
  "defined (pp_define n body s) k = (k = n \<or> defined s k)"
  by (simp add: defined_def macros_pp_define)

lemma conflicts_pp_define:
  "conflicts (pp_define n body s) =
     (case macros s n of
        None \<Rightarrow> conflicts s
      | Some m \<Rightarrow> if m = ObjectLike body then conflicts s else conflicts s @ [n])"
  by (simp add: pp_define_def)

lemmas step_simps =
  if_defined_pp_define
  macros_pp_define defined_pp_define conflicts_pp_define
  macros_ifndef_pp_define defined_ifndef_pp_define conflicts_ifndef_pp_define
  macros_ifndef_if_defined defined_ifndef_if_defined conflicts_ifndef_if_defined

section \<open>What one processing of the header does\<close>

text \<open>
  The macro table after the header, name by name. With the guard defined nothing happens.
  Otherwise the guard is defined; \<^verbatim>\<open>_XOPEN_SOURCE\<close>,
  \<^verbatim>\<open>YP_IMPORTED_FUNCTION\<close> and \<^verbatim>\<open>YP_EXPORTED_FUNCTION\<close> are defined where they
  were not; \<^verbatim>\<open>YP_ATTRIBUTE_UNUSED\<close> is defined whatever it was; no other name is touched.
\<close>

lemma macros_defines_h:
  "macros (defines_h s) k =
     (if defined s ''YARP_DEFINES_H'' then macros s k
      else if k = ''YARP_DEFINES_H'' then Some (ObjectLike [])
      else if k = ''_XOPEN_SOURCE'' then
        (case macros s k of None \<Rightarrow> Some (ObjectLike [''700'']) | Some m \<Rightarrow> Some m)
      else if k = ''YP_IMPORTED_FUNCTION'' then
        (case macros s k of
           None \<Rightarrow> Some (ObjectLike (if defined s ''_WIN32'' then declspec_dllimport
                                      else attribute_visibility_default))
         | Some m \<Rightarrow> Some m)
      else if k = ''YP_EXPORTED_FUNCTION'' then
        (case macros s k of
           None \<Rightarrow> Some (ObjectLike (if defined s ''_WIN32'' then declspec_dllexport
                                      else attribute_visibility_default))
         | Some m \<Rightarrow> Some m)
      else if k = ''YP_ATTRIBUTE_UNUSED'' then
        Some (ObjectLike (if defined s ''_WIN32'' then [] else attribute_unused))
      else macros s k)"
  by (simp add: defines_h_steps step_simps split: option.split)

text \<open>
  The diagnostics after the header: the only \<^verbatim>\<open>#define\<close> that can meet an existing
  definition is the one of \<^verbatim>\<open>YP_ATTRIBUTE_UNUSED\<close>.
\<close>

lemma conflicts_defines_h:
  "conflicts (defines_h s) =
     (if defined s ''YARP_DEFINES_H'' then conflicts s
      else case macros s ''YP_ATTRIBUTE_UNUSED'' of
        None \<Rightarrow> conflicts s
      | Some m \<Rightarrow>
          if m = ObjectLike (if defined s ''_WIN32'' then [] else attribute_unused)
          then conflicts s else conflicts s @ [''YP_ATTRIBUTE_UNUSED''])"
  by (simp add: defines_h_steps step_simps split: option.split) (simp_all add: defined_def)

text \<open>The same, for each of the four symbols.\<close>

lemma xopen_source_after:
  "macros (defines_h s) ''_XOPEN_SOURCE'' =
     (if defined s ''YARP_DEFINES_H'' then macros s ''_XOPEN_SOURCE''
      else case macros s ''_XOPEN_SOURCE'' of
        None \<Rightarrow> Some (ObjectLike [''700''])
      | Some m \<Rightarrow> Some m)"
  by (simp add: macros_defines_h)

lemma imported_function_after:
  "macros (defines_h s) ''YP_IMPORTED_FUNCTION'' =
     (if defined s ''YARP_DEFINES_H'' then macros s ''YP_IMPORTED_FUNCTION''
      else case macros s ''YP_IMPORTED_FUNCTION'' of
        None \<Rightarrow> Some (ObjectLike (if defined s ''_WIN32'' then declspec_dllimport
                                   else attribute_visibility_default))
      | Some m \<Rightarrow> Some m)"
  by (simp add: macros_defines_h)

lemma exported_function_after:
  "macros (defines_h s) ''YP_EXPORTED_FUNCTION'' =
     (if defined s ''YARP_DEFINES_H'' then macros s ''YP_EXPORTED_FUNCTION''
      else case macros s ''YP_EXPORTED_FUNCTION'' of
        None \<Rightarrow> Some (ObjectLike (if defined s ''_WIN32'' then declspec_dllexport
                                   else attribute_visibility_default))
      | Some m \<Rightarrow> Some m)"
  by (simp add: macros_defines_h)

lemma attribute_unused_after:
  "macros (defines_h s) ''YP_ATTRIBUTE_UNUSED'' =
     (if defined s ''YARP_DEFINES_H'' then macros s ''YP_ATTRIBUTE_UNUSED''
      else Some (ObjectLike (if defined s ''_WIN32'' then [] else attribute_unused)))"
  by (simp add: macros_defines_h)

lemma defines_h_skipped:
  "defined s ''YARP_DEFINES_H'' \<Longrightarrow> defines_h s = s"
  by (simp add: defines_h_def ifndef_def)

lemma guard_defined_after:
  "defined (defines_h s) ''YARP_DEFINES_H''"
  by (simp add: defined_def macros_defines_h)

lemma macros_predefined:
  "macros (predefined ps) k = map_option ObjectLike (map_of ps k)"
  by (induction ps) (auto simp: predefined_def)

lemma conflicts_predefined:
  "conflicts (predefined ps) = []"
  by (simp add: predefined_def)

lemma defined_predefined:
  "defined (predefined ps) k = (map_of ps k \<noteq> None)"
  by (simp add: defined_def macros_predefined)

section \<open>Caller-supplied definitions\<close>

text \<open>
  C1 (as amended). Let one of the four symbols be defined before the header is processed.
  \<^verbatim>\<open>_XOPEN_SOURCE\<close>, \<^verbatim>\<open>YP_IMPORTED_FUNCTION\<close> and
  \<^verbatim>\<open>YP_EXPORTED_FUNCTION\<close> sit under an \<^verbatim>\<open>#ifndef\<close> of their own and keep the
  caller's definition, on the Windows branch and on the other. \<^verbatim>\<open>YP_ATTRIBUTE_UNUSED\<close>
  is defined with no such check: it keeps the caller's definition only if the guard
  \<^verbatim>\<open>YARP_DEFINES_H\<close> was already defined, or if the caller's definition is the very one the
  header gives on that platform.
\<close>

theorem predefined_symbol_kept:
  assumes pre: "macros s n = Some m"
    and sym: "n = ''_XOPEN_SOURCE'' \<or> n = ''YP_IMPORTED_FUNCTION''
         \<or> n = ''YP_EXPORTED_FUNCTION'' \<or> n = ''YP_ATTRIBUTE_UNUSED''"
  shows "(macros (defines_h s) n = Some m) =
         (n \<noteq> ''YP_ATTRIBUTE_UNUSED'' \<or> defined s ''YARP_DEFINES_H''
          \<or> m = ObjectLike (if defined s ''_WIN32'' then [] else attribute_unused))"
  using sym
proof (elim disjE)
  assume n: "n = ''_XOPEN_SOURCE''"
  from pre show ?thesis unfolding n by (simp add: xopen_source_after)
next
  assume n: "n = ''YP_IMPORTED_FUNCTION''"
  from pre show ?thesis unfolding n by (simp add: imported_function_after)
next
  assume n: "n = ''YP_EXPORTED_FUNCTION''"
  from pre show ?thesis unfolding n by (simp add: exported_function_after)
next
  assume n: "n = ''YP_ATTRIBUTE_UNUSED''"
  from pre show ?thesis unfolding n by (auto simp: attribute_unused_after)
qed

text \<open>
  The theorem at work: a caller's \<^verbatim>\<open>YP_IMPORTED_FUNCTION\<close> (here \<^verbatim>\<open>extern\<close>) survives
  on the non-Windows branch, and on the Windows branch a caller's empty
  \<^verbatim>\<open>YP_ATTRIBUTE_UNUSED\<close> survives because it is what the header defines there.
\<close>

theorem predefined_symbol_kept_witness:
  "macros (predefined [(''YP_IMPORTED_FUNCTION'', [''extern''])]) ''YP_IMPORTED_FUNCTION''
     = Some (ObjectLike [''extern''])
   \<and> macros (defines_h (predefined [(''YP_IMPORTED_FUNCTION'', [''extern''])]))
       ''YP_IMPORTED_FUNCTION'' = Some (ObjectLike [''extern''])
   \<and> macros (predefined [(''_WIN32'', [''1'']), (''YP_ATTRIBUTE_UNUSED'', [])]) ''YP_ATTRIBUTE_UNUSED''
     = Some (ObjectLike [])
   \<and> macros (defines_h (predefined [(''_WIN32'', [''1'']), (''YP_ATTRIBUTE_UNUSED'', [])]))
       ''YP_ATTRIBUTE_UNUSED'' = Some (ObjectLike [])"
  using predefined_symbol_kept
          [of "predefined [(''YP_IMPORTED_FUNCTION'', [''extern''])]"
              "''YP_IMPORTED_FUNCTION''" "ObjectLike [''extern'']"]
        predefined_symbol_kept
          [of "predefined [(''_WIN32'', [''1'']), (''YP_ATTRIBUTE_UNUSED'', [])]"
              "''YP_ATTRIBUTE_UNUSED''" "ObjectLike []"]
  by (simp add: macros_predefined defined_predefined)

text \<open>
  C1 as stated fails for \<^verbatim>\<open>YP_ATTRIBUTE_UNUSED\<close>. A translation unit that defines it
  empty (say, for a compiler without the attribute) and then includes the header on a
  non-Windows platform ends up with \<^verbatim>\<open>__attribute__((unused))\<close>.
\<close>

theorem predefined_unused_overridden:
  "macros (predefined [(''YP_ATTRIBUTE_UNUSED'', [])]) ''YP_ATTRIBUTE_UNUSED''
     = Some (ObjectLike [])
   \<and> macros (defines_h (predefined [(''YP_ATTRIBUTE_UNUSED'', [])])) ''YP_ATTRIBUTE_UNUSED''
     = Some (ObjectLike [''__attribute__'', ''('', ''('', ''unused'', '')'', '')''])
   \<and> macros (defines_h (predefined [(''YP_ATTRIBUTE_UNUSED'', [])])) ''YP_ATTRIBUTE_UNUSED''
     \<noteq> macros (predefined [(''YP_ATTRIBUTE_UNUSED'', [])]) ''YP_ATTRIBUTE_UNUSED''"
  by (simp add: attribute_unused_after macros_predefined defined_predefined attribute_unused_def)

section \<open>Redefinition conflicts\<close>

text \<open>
  C2 (as amended). \<^verbatim>\<open>YARP_DEFINES_H\<close>, \<^verbatim>\<open>_XOPEN_SOURCE\<close>,
  \<^verbatim>\<open>YP_IMPORTED_FUNCTION\<close> and \<^verbatim>\<open>YP_EXPORTED_FUNCTION\<close> are defined only after a
  check that they are not defined, so they never cause a redefinition conflict.
  \<^verbatim>\<open>YP_ATTRIBUTE_UNUSED\<close> is defined unchecked. For every initial state, processing the
  header reports a conflict exactly when \<^verbatim>\<open>YARP_DEFINES_H\<close> is not defined and
  \<^verbatim>\<open>YP_ATTRIBUTE_UNUSED\<close> is defined with something other than what the header gives it on
  that platform (a function-like macro, other tokens, or the same tokens with other
  white-space separation); the conflict is then on \<^verbatim>\<open>YP_ATTRIBUTE_UNUSED\<close> and on
  nothing else.
\<close>

theorem redefinition_conflict_iff:
  "conflicts (defines_h s) =
     (if \<not> defined s ''YARP_DEFINES_H'' \<and> defined s ''YP_ATTRIBUTE_UNUSED''
         \<and> macros s ''YP_ATTRIBUTE_UNUSED''
             \<noteq> Some (ObjectLike (if defined s ''_WIN32'' then [] else attribute_unused))
      then conflicts s @ [''YP_ATTRIBUTE_UNUSED''] else conflicts s)"
  by (auto simp: conflicts_defines_h defined_def split: option.split)

text \<open>
  The theorem on the non-Windows branch, at three translation units. Compiled with
  \<^verbatim>\<open>-DYP_ATTRIBUTE_UNUSED='__attribute__ ((unused))'\<close>, where the caller's definition
  differs from line 31 of the header by one white-space separation only, the header's
  \<^verbatim>\<open>#define\<close> is a conflict. With the caller's definition identical to line 31 there is
  none, and with \<^verbatim>\<open>YP_ATTRIBUTE_UNUSED\<close> not predefined there is none.
\<close>

theorem redefinition_conflict_iff_witness:
  "conflicts (defines_h (predefined [(''YP_ATTRIBUTE_UNUSED'',
       [''__attribute__'', white_space, ''('', ''('', ''unused'', '')'', '')''])]))
     = [''YP_ATTRIBUTE_UNUSED'']
   \<and> conflicts (defines_h (predefined [(''YP_ATTRIBUTE_UNUSED'',
       [''__attribute__'', ''('', ''('', ''unused'', '')'', '')''])])) = []
   \<and> conflicts (defines_h (predefined [])) = []"
  using redefinition_conflict_iff
          [of "predefined [(''YP_ATTRIBUTE_UNUSED'',
                 [''__attribute__'', white_space, ''('', ''('', ''unused'', '')'', '')''])]"]
        redefinition_conflict_iff
          [of "predefined [(''YP_ATTRIBUTE_UNUSED'',
                 [''__attribute__'', ''('', ''('', ''unused'', '')'', '')''])]"]
        redefinition_conflict_iff [of "predefined []"]
  by (simp add: macros_predefined defined_predefined conflicts_predefined
      attribute_unused_def white_space_def)

text \<open>
  C2 as stated fails: with \<^verbatim>\<open>_WIN32\<close> defined and \<^verbatim>\<open>YP_ATTRIBUTE_UNUSED\<close> predefined as
  \<^verbatim>\<open>__attribute__((unused))\<close> (a GCC-based Windows toolchain asking for the attribute), the
  header's empty definition of \<^verbatim>\<open>YP_ATTRIBUTE_UNUSED\<close> is a conflicting redefinition.
\<close>

theorem unused_redefinition_conflict:
  "conflicts (predefined [(''_WIN32'', [''1'']),
       (''YP_ATTRIBUTE_UNUSED'', [''__attribute__'', ''('', ''('', ''unused'', '')'', '')''])]) = []
   \<and> conflicts (defines_h (predefined [(''_WIN32'', [''1'']),
       (''YP_ATTRIBUTE_UNUSED'', [''__attribute__'', ''('', ''('', ''unused'', '')'', '')''])]))
     = [''YP_ATTRIBUTE_UNUSED'']"
  by (simp add: conflicts_defines_h macros_predefined defined_predefined conflicts_predefined)

section \<open>Processing the header twice\<close>

text \<open>
  C3 (as amended). Processing the header a second time changes nothing at all: the state
  after two passes is the state after one, for every initial state and on both platform
  branches. So the second pass reports no redefinition conflict, and every macro, the four
  symbols among them, has the definition the first pass left. (Whether the first pass
  itself reports a conflict is the matter of C2.)
\<close>

theorem defines_h_twice:
  "defines_h (defines_h s) = defines_h s"
  by (rule defines_h_skipped) (rule guard_defined_after)

text \<open>
  C3 as stated promises that two passes report no conflict whatever the initial state. With
  \<^verbatim>\<open>YP_ATTRIBUTE_UNUSED\<close> predefined as \<^verbatim>\<open>1\<close> (the command line option
  \<^verbatim>\<open>-DYP_ATTRIBUTE_UNUSED\<close>) one is reported: the first pass redefines the macro.
\<close>

theorem twice_conflict:
  "conflicts (predefined [(''YP_ATTRIBUTE_UNUSED'', [''1''])]) = []
   \<and> conflicts (defines_h (defines_h (predefined [(''YP_ATTRIBUTE_UNUSED'', [''1''])])))
     = [''YP_ATTRIBUTE_UNUSED'']"
  by (simp add: defines_h_skipped [OF guard_defined_after]
      conflicts_defines_h macros_predefined defined_predefined conflicts_predefined
      attribute_unused_def)

section \<open>A translation unit with none of the four symbols predefined\<close>

text \<open>
  C4 (as amended). On the non-Windows branch (\<^verbatim>\<open>_WIN32\<close> not defined), starting from a
  state in which none of the four symbols is defined and the guard \<^verbatim>\<open>YARP_DEFINES_H\<close> is
  not defined either, one processing of the header leaves \<^verbatim>\<open>_XOPEN_SOURCE\<close> defined as
  \<^verbatim>\<open>700\<close>, \<^verbatim>\<open>YP_IMPORTED_FUNCTION\<close> and \<^verbatim>\<open>YP_EXPORTED_FUNCTION\<close> both as
  \<^verbatim>\<open>__attribute__((__visibility__("default")))\<close>, and \<^verbatim>\<open>YP_ATTRIBUTE_UNUSED\<close> as
  \<^verbatim>\<open>__attribute__((unused))\<close>.
\<close>

theorem posix_defaults:
  assumes "\<not> defined s ''YARP_DEFINES_H''"
    and "\<not> defined s ''_WIN32''"
    and "\<not> defined s ''_XOPEN_SOURCE''"
    and "\<not> defined s ''YP_IMPORTED_FUNCTION''"
    and "\<not> defined s ''YP_EXPORTED_FUNCTION''"
    and "\<not> defined s ''YP_ATTRIBUTE_UNUSED''"
  shows "macros (defines_h s) ''_XOPEN_SOURCE'' = Some (ObjectLike [''700''])
       \<and> macros (defines_h s) ''YP_IMPORTED_FUNCTION'' =
           Some (ObjectLike [''__attribute__'', ''('', ''('', ''__visibility__'', ''('',
                             string_literal ''default'', '')'', '')'', '')''])
       \<and> macros (defines_h s) ''YP_EXPORTED_FUNCTION'' =
           Some (ObjectLike [''__attribute__'', ''('', ''('', ''__visibility__'', ''('',
                             string_literal ''default'', '')'', '')'', '')''])
       \<and> macros (defines_h s) ''YP_ATTRIBUTE_UNUSED'' =
           Some (ObjectLike [''__attribute__'', ''('', ''('', ''unused'', '')'', '')''])"
  using assms
  by (simp add: xopen_source_after imported_function_after exported_function_after
      attribute_unused_after defined_def attribute_visibility_default_def attribute_unused_def)

text \<open>
  The theorem at the empty macro table; the string literal token is spelled out.
\<close>

theorem posix_defaults_witness:
  "\<not> defined (predefined []) ''YARP_DEFINES_H''
   \<and> \<not> defined (predefined []) ''_WIN32''
   \<and> macros (defines_h (predefined [])) ''_XOPEN_SOURCE'' = Some (ObjectLike [''700''])
   \<and> macros (defines_h (predefined [])) ''YP_IMPORTED_FUNCTION'' =
       Some (ObjectLike [''__attribute__'', ''('', ''('', ''__visibility__'', ''('',
                         CHR 0x22 # ''default'' @ [CHR 0x22], '')'', '')'', '')''])
   \<and> macros (defines_h (predefined [])) ''YP_EXPORTED_FUNCTION'' =
       Some (ObjectLike [''__attribute__'', ''('', ''('', ''__visibility__'', ''('',
                         CHR 0x22 # ''default'' @ [CHR 0x22], '')'', '')'', '')''])
   \<and> macros (defines_h (predefined [])) ''YP_ATTRIBUTE_UNUSED'' =
       Some (ObjectLike [''__attribute__'', ''('', ''('', ''unused'', '')'', '')''])"
  using posix_defaults [of "predefined []"]
  by (simp add: defined_predefined string_literal_def)

text \<open>
  C4 as stated does not ask for the guard to be undefined. Where \<^verbatim>\<open>YARP_DEFINES_H\<close> is
  already defined (and nothing else is), the header is skipped and \<^verbatim>\<open>_XOPEN_SOURCE\<close> stays
  undefined.
\<close>

theorem posix_guard_predefined:
  "\<not> defined (predefined [(''YARP_DEFINES_H'', [])]) ''_WIN32''
   \<and> \<not> defined (predefined [(''YARP_DEFINES_H'', [])]) ''_XOPEN_SOURCE''
   \<and> \<not> defined (predefined [(''YARP_DEFINES_H'', [])]) ''YP_IMPORTED_FUNCTION''
   \<and> \<not> defined (predefined [(''YARP_DEFINES_H'', [])]) ''YP_EXPORTED_FUNCTION''
   \<and> \<not> defined (predefined [(''YARP_DEFINES_H'', [])]) ''YP_ATTRIBUTE_UNUSED''
   \<and> macros (defines_h (predefined [(''YARP_DEFINES_H'', [])])) ''_XOPEN_SOURCE'' = None
   \<and> macros (defines_h (predefined [(''YARP_DEFINES_H'', [])])) ''_XOPEN_SOURCE''
       \<noteq> Some (ObjectLike [''700''])"
  by (simp add: xopen_source_after defined_predefined macros_predefined)

text \<open>
  C5 (as amended). On the Windows branch (\<^verbatim>\<open>_WIN32\<close> defined), starting from a state in
  which none of the four symbols is defined and the guard \<^verbatim>\<open>YARP_DEFINES_H\<close> is not
  defined either, one processing of the header leaves \<^verbatim>\<open>YP_IMPORTED_FUNCTION\<close> defined as
  \<^verbatim>\<open>__declspec(dllimport)\<close>, \<^verbatim>\<open>YP_EXPORTED_FUNCTION\<close> as \<^verbatim>\<open>__declspec(dllexport)\<close>,
  and \<^verbatim>\<open>YP_ATTRIBUTE_UNUSED\<close> defined with an empty replacement list.
\<close>

theorem windows_defaults:
  assumes "\<not> defined s ''YARP_DEFINES_H''"
    and "defined s ''_WIN32''"
    and "\<not> defined s ''_XOPEN_SOURCE''"
    and "\<not> defined s ''YP_IMPORTED_FUNCTION''"
    and "\<not> defined s ''YP_EXPORTED_FUNCTION''"
    and "\<not> defined s ''YP_ATTRIBUTE_UNUSED''"
  shows "macros (defines_h s) ''YP_IMPORTED_FUNCTION'' =
           Some (ObjectLike [''__declspec'', ''('', ''dllimport'', '')''])
       \<and> macros (defines_h s) ''YP_EXPORTED_FUNCTION'' =
           Some (ObjectLike [''__declspec'', ''('', ''dllexport'', '')''])
       \<and> macros (defines_h s) ''YP_ATTRIBUTE_UNUSED'' = Some (ObjectLike [])"
  using assms
  by (simp add: imported_function_after exported_function_after
      attribute_unused_after defined_def declspec_dllimport_def declspec_dllexport_def)

text \<open>
  The theorem at the macro table that holds \<^verbatim>\<open>_WIN32\<close> alone.
\<close>

theorem windows_defaults_witness:
  "\<not> defined (predefined [(''_WIN32'', [''1''])]) ''YARP_DEFINES_H''
   \<and> defined (predefined [(''_WIN32'', [''1''])]) ''_WIN32''
   \<and> macros (defines_h (predefined [(''_WIN32'', [''1''])])) ''YP_IMPORTED_FUNCTION'' =
       Some (ObjectLike [''__declspec'', ''('', ''dllimport'', '')''])
   \<and> macros (defines_h (predefined [(''_WIN32'', [''1''])])) ''YP_EXPORTED_FUNCTION'' =
       Some (ObjectLike [''__declspec'', ''('', ''dllexport'', '')''])
   \<and> macros (defines_h (predefined [(''_WIN32'', [''1''])])) ''YP_ATTRIBUTE_UNUSED'' =
       Some (ObjectLike [])"
  using windows_defaults [of "predefined [(''_WIN32'', [''1''])]"]
  by (simp add: defined_predefined)

text \<open>
  C5 as stated does not ask for the guard to be undefined. With \<^verbatim>\<open>_WIN32\<close> and
  \<^verbatim>\<open>YARP_DEFINES_H\<close> defined and nothing else, the header is skipped and
  \<^verbatim>\<open>YP_EXPORTED_FUNCTION\<close> stays undefined.
\<close>

theorem windows_guard_predefined:
  "defined (predefined [(''_WIN32'', [''1'']), (''YARP_DEFINES_H'', [])]) ''_WIN32''
   \<and> \<not> defined (predefined [(''_WIN32'', [''1'']), (''YARP_DEFINES_H'', [])]) ''_XOPEN_SOURCE''
   \<and> \<not> defined (predefined [(''_WIN32'', [''1'']), (''YARP_DEFINES_H'', [])]) ''YP_IMPORTED_FUNCTION''
   \<and> \<not> defined (predefined [(''_WIN32'', [''1'']), (''YARP_DEFINES_H'', [])]) ''YP_EXPORTED_FUNCTION''
   \<and> \<not> defined (predefined [(''_WIN32'', [''1'']), (''YARP_DEFINES_H'', [])]) ''YP_ATTRIBUTE_UNUSED''
   \<and> macros (defines_h (predefined [(''_WIN32'', [''1'']), (''YARP_DEFINES_H'', [])]))
        ''YP_EXPORTED_FUNCTION'' = None
   \<and> macros (defines_h (predefined [(''_WIN32'', [''1'']), (''YARP_DEFINES_H'', [])]))
        ''YP_EXPORTED_FUNCTION'' \<noteq> Some (ObjectLike [''__declspec'', ''('', ''dllexport'', '')''])"
  by (simp add: exported_function_after defined_predefined macros_predefined)

section \<open>The feature-test macro\<close>

text \<open>
  C6 (as amended). For every initial state and on both platform branches, after one
  processing of the header \<^verbatim>\<open>_XOPEN_SOURCE\<close> has the definition it had before if it had
  one, whatever that was; if it had none, it is defined as \<^verbatim>\<open>700\<close>, unless the guard
  \<^verbatim>\<open>YARP_DEFINES_H\<close> was already defined, in which case it stays undefined.
\<close>

theorem xopen_source_value:
  "macros (defines_h s) ''_XOPEN_SOURCE'' =
     (case macros s ''_XOPEN_SOURCE'' of
        Some m \<Rightarrow> Some m
      | None \<Rightarrow> if defined s ''YARP_DEFINES_H'' then None else Some (ObjectLike [''700'']))"
  by (simp add: xopen_source_after split: option.split)

text \<open>
  C6 as stated fails in two ways. A translation unit compiled with
  \<^verbatim>\<open>-D_XOPEN_SOURCE=600\<close> keeps \<^verbatim>\<open>600\<close>: the header does not raise it to \<^verbatim>\<open>700\<close>.
  And where the guard is already defined, \<^verbatim>\<open>_XOPEN_SOURCE\<close> is not defined at all.
\<close>

theorem xopen_source_not_700:
  "macros (defines_h (predefined [(''_XOPEN_SOURCE'', [''600''])])) ''_XOPEN_SOURCE''
     = Some (ObjectLike [''600''])
   \<and> macros (defines_h (predefined [(''_XOPEN_SOURCE'', [''600''])])) ''_XOPEN_SOURCE''
     \<noteq> Some (ObjectLike [''700''])
   \<and> macros (defines_h (predefined [(''YARP_DEFINES_H'', [''1''])])) ''_XOPEN_SOURCE'' = None"
  by (simp add: xopen_source_after defined_predefined macros_predefined)

section \<open>All four symbols\<close>

text \<open>
  C7 (as amended). For every initial state in which the guard \<^verbatim>\<open>YARP_DEFINES_H\<close> is not
  defined, and on both platform branches, each of the four symbols is defined after the
  header is processed: \<^verbatim>\<open>_XOPEN_SOURCE\<close>, \<^verbatim>\<open>YP_IMPORTED_FUNCTION\<close> and
  \<^verbatim>\<open>YP_EXPORTED_FUNCTION\<close> with the caller's definition if there was one and with the
  header's value for the platform otherwise, \<^verbatim>\<open>YP_ATTRIBUTE_UNUSED\<close> with the header's
  value for the platform.
\<close>

theorem four_symbols_defined:
  assumes "\<not> defined s ''YARP_DEFINES_H''"
  shows "macros (defines_h s) ''_XOPEN_SOURCE'' =
           Some (case macros s ''_XOPEN_SOURCE'' of
                   None \<Rightarrow> ObjectLike [''700'']
                 | Some m \<Rightarrow> m)
       \<and> macros (defines_h s) ''YP_IMPORTED_FUNCTION'' =
           Some (case macros s ''YP_IMPORTED_FUNCTION'' of
                   None \<Rightarrow> ObjectLike (if defined s ''_WIN32'' then declspec_dllimport
                                        else attribute_visibility_default)
                 | Some m \<Rightarrow> m)
       \<and> macros (defines_h s) ''YP_EXPORTED_FUNCTION'' =
           Some (case macros s ''YP_EXPORTED_FUNCTION'' of
                   None \<Rightarrow> ObjectLike (if defined s ''_WIN32'' then declspec_dllexport
                                        else attribute_visibility_default)
                 | Some m \<Rightarrow> m)
       \<and> macros (defines_h s) ''YP_ATTRIBUTE_UNUSED'' =
           Some (ObjectLike (if defined s ''_WIN32'' then [] else attribute_unused))"
  using assms
  by (simp add: xopen_source_after imported_function_after exported_function_after
      attribute_unused_after split: option.split)

text \<open>
  The theorem on the Windows branch with a caller-supplied \<^verbatim>\<open>YP_EXPORTED_FUNCTION\<close>.
\<close>

theorem four_symbols_defined_witness:
  "\<not> defined (predefined [(''_WIN32'', [''1'']), (''YP_EXPORTED_FUNCTION'', [''extern''])])
       ''YARP_DEFINES_H''
   \<and> macros (defines_h (predefined [(''_WIN32'', [''1'']), (''YP_EXPORTED_FUNCTION'', [''extern''])]))
       ''_XOPEN_SOURCE'' = Some (ObjectLike [''700''])
   \<and> macros (defines_h (predefined [(''_WIN32'', [''1'']), (''YP_EXPORTED_FUNCTION'', [''extern''])]))
       ''YP_IMPORTED_FUNCTION'' = Some (ObjectLike [''__declspec'', ''('', ''dllimport'', '')''])
   \<and> macros (defines_h (predefined [(''_WIN32'', [''1'']), (''YP_EXPORTED_FUNCTION'', [''extern''])]))
       ''YP_EXPORTED_FUNCTION'' = Some (ObjectLike [''extern''])
   \<and> macros (defines_h (predefined [(''_WIN32'', [''1'']), (''YP_EXPORTED_FUNCTION'', [''extern''])]))
       ''YP_ATTRIBUTE_UNUSED'' = Some (ObjectLike [])"
  using four_symbols_defined
    [of "predefined [(''_WIN32'', [''1'']), (''YP_EXPORTED_FUNCTION'', [''extern''])]"]
  by (simp add: defined_predefined macros_predefined declspec_dllimport_def)

text \<open>
  C7 as stated covers every initial state. Where the guard is already defined and the four
  symbols are not, none of them is defined afterwards.
\<close>

theorem four_symbols_left_undefined:
  "macros (defines_h (predefined [(''YARP_DEFINES_H'', [])])) ''_XOPEN_SOURCE'' = None
   \<and> macros (defines_h (predefined [(''YARP_DEFINES_H'', [])])) ''YP_IMPORTED_FUNCTION'' = None
   \<and> macros (defines_h (predefined [(''YARP_DEFINES_H'', [])])) ''YP_EXPORTED_FUNCTION'' = None
   \<and> macros (defines_h (predefined [(''YARP_DEFINES_H'', [])])) ''YP_ATTRIBUTE_UNUSED'' = None"
  by (simp add: xopen_source_after imported_function_after exported_function_after
      attribute_unused_after defined_predefined macros_predefined)

section \<open>The two-way platform split\<close>

text \<open>
  C8 (as amended). The final definitions of the four symbols depend only on whether
  \<^verbatim>\<open>_WIN32\<close> is defined, on whether the guard \<^verbatim>\<open>YARP_DEFINES_H\<close> is defined, and on the
  initial definitions of the four symbols: two initial states that agree on these yield the
  same final definition for each of the four symbols. No other macro, so no other
  platform-identification macro, has any influence.
\<close>

theorem platform_split:
  assumes "defined s1 ''_WIN32'' = defined s2 ''_WIN32''"
    and "defined s1 ''YARP_DEFINES_H'' = defined s2 ''YARP_DEFINES_H''"
    and "macros s1 ''_XOPEN_SOURCE'' = macros s2 ''_XOPEN_SOURCE''"
    and "macros s1 ''YP_IMPORTED_FUNCTION'' = macros s2 ''YP_IMPORTED_FUNCTION''"
    and "macros s1 ''YP_EXPORTED_FUNCTION'' = macros s2 ''YP_EXPORTED_FUNCTION''"
    and "macros s1 ''YP_ATTRIBUTE_UNUSED'' = macros s2 ''YP_ATTRIBUTE_UNUSED''"
  shows "macros (defines_h s1) ''_XOPEN_SOURCE'' = macros (defines_h s2) ''_XOPEN_SOURCE''
       \<and> macros (defines_h s1) ''YP_IMPORTED_FUNCTION''
           = macros (defines_h s2) ''YP_IMPORTED_FUNCTION''
       \<and> macros (defines_h s1) ''YP_EXPORTED_FUNCTION''
           = macros (defines_h s2) ''YP_EXPORTED_FUNCTION''
       \<and> macros (defines_h s1) ''YP_ATTRIBUTE_UNUSED''
           = macros (defines_h s2) ''YP_ATTRIBUTE_UNUSED''"
  using assms
  by (simp add: xopen_source_after imported_function_after exported_function_after
      attribute_unused_after)

text \<open>
  The theorem for a Linux-like and a macOS-like configuration, which differ on
  \<^verbatim>\<open>__linux__\<close>.
\<close>

theorem platform_split_witness:
  "macros (defines_h (predefined [(''__linux__'', [''1''])])) ''_XOPEN_SOURCE''
     = macros (defines_h (predefined [(''__APPLE__'', [''1'']), (''__GNUC__'', [''4''])])) ''_XOPEN_SOURCE''
   \<and> macros (defines_h (predefined [(''__linux__'', [''1''])])) ''YP_IMPORTED_FUNCTION''
     = macros (defines_h (predefined [(''__APPLE__'', [''1'']), (''__GNUC__'', [''4''])])) ''YP_IMPORTED_FUNCTION''
   \<and> macros (defines_h (predefined [(''__linux__'', [''1''])])) ''YP_EXPORTED_FUNCTION''
     = macros (defines_h (predefined [(''__APPLE__'', [''1'']), (''__GNUC__'', [''4''])])) ''YP_EXPORTED_FUNCTION''
   \<and> macros (defines_h (predefined [(''__linux__'', [''1''])])) ''YP_ATTRIBUTE_UNUSED''
     = macros (defines_h (predefined [(''__APPLE__'', [''1'']), (''__GNUC__'', [''4''])])) ''YP_ATTRIBUTE_UNUSED''
   \<and> macros (predefined [(''__linux__'', [''1''])]) ''__linux__''
     \<noteq> macros (predefined [(''__APPLE__'', [''1'']), (''__GNUC__'', [''4''])]) ''__linux__''"
  using platform_split
    [of "predefined [(''__linux__'', [''1''])]"
        "predefined [(''__APPLE__'', [''1'']), (''__GNUC__'', [''4''])]"]
  by (simp add: defined_predefined macros_predefined)

text \<open>
  C8 as stated leaves the guard out of what decides the result. The empty macro table and
  the one holding \<^verbatim>\<open>YARP_DEFINES_H\<close> alone agree on \<^verbatim>\<open>_WIN32\<close> and on the four symbols,
  yet \<^verbatim>\<open>_XOPEN_SOURCE\<close> ends up defined from the first and undefined from the second.
\<close>

theorem guard_decides_too:
  "defined (predefined []) ''_WIN32'' = defined (predefined [(''YARP_DEFINES_H'', [])]) ''_WIN32''
   \<and> macros (predefined []) ''_XOPEN_SOURCE''
       = macros (predefined [(''YARP_DEFINES_H'', [])]) ''_XOPEN_SOURCE''
   \<and> macros (predefined []) ''YP_IMPORTED_FUNCTION''
       = macros (predefined [(''YARP_DEFINES_H'', [])]) ''YP_IMPORTED_FUNCTION''
   \<and> macros (predefined []) ''YP_EXPORTED_FUNCTION''
       = macros (predefined [(''YARP_DEFINES_H'', [])]) ''YP_EXPORTED_FUNCTION''
   \<and> macros (predefined []) ''YP_ATTRIBUTE_UNUSED''
       = macros (predefined [(''YARP_DEFINES_H'', [])]) ''YP_ATTRIBUTE_UNUSED''
   \<and> macros (defines_h (predefined [])) ''_XOPEN_SOURCE'' = Some (ObjectLike [''700''])
   \<and> macros (defines_h (predefined [(''YARP_DEFINES_H'', [])])) ''_XOPEN_SOURCE'' = None"
  by (simp add: xopen_source_after defined_predefined macros_predefined)

section \<open>The inclusion guard\<close>

text \<open>
  C9. If \<^verbatim>\<open>YARP_DEFINES_H\<close> is already defined when the header is processed, the
  whole state is returned as it was: the macro table (so none of the four symbols is defined
  or modified, whatever their state was) and the diagnostics.
\<close>

theorem guard_defined_unchanged:
  "defined s ''YARP_DEFINES_H'' \<Longrightarrow> defines_h s = s"
  by (simp add: defines_h_def ifndef_def)

theorem guard_defined_unchanged_witness:
  "defined (predefined [(''YARP_DEFINES_H'', [])]) ''YARP_DEFINES_H''
   \<and> defines_h (predefined [(''YARP_DEFINES_H'', [])]) = predefined [(''YARP_DEFINES_H'', [])]
   \<and> macros (defines_h (predefined [(''YARP_DEFINES_H'', [])])) ''_XOPEN_SOURCE'' = None
   \<and> macros (defines_h (predefined [(''YARP_DEFINES_H'', [])])) ''YP_IMPORTED_FUNCTION'' = None
   \<and> macros (defines_h (predefined [(''YARP_DEFINES_H'', [])])) ''YP_EXPORTED_FUNCTION'' = None
   \<and> macros (defines_h (predefined [(''YARP_DEFINES_H'', [])])) ''YP_ATTRIBUTE_UNUSED'' = None"
proof -
  have d: "defined (predefined [(''YARP_DEFINES_H'', [])]) ''YARP_DEFINES_H''"
    by (simp add: defined_def predefined_def)
  from guard_defined_unchanged [OF d] d show ?thesis
    by (simp add: predefined_def)
qed

section \<open>Macros the header does not name\<close>

text \<open>
  C10. For every initial state and on both platform branches, a macro name other than
  \<^verbatim>\<open>YARP_DEFINES_H\<close>, \<^verbatim>\<open>_XOPEN_SOURCE\<close>, \<^verbatim>\<open>YP_IMPORTED_FUNCTION\<close>,
  \<^verbatim>\<open>YP_EXPORTED_FUNCTION\<close> and \<^verbatim>\<open>YP_ATTRIBUTE_UNUSED\<close> has after the header exactly the
  definition it had before, or none if it had none.
\<close>

theorem other_macros_untouched:
  assumes "n \<noteq> ''YARP_DEFINES_H''"
    and "n \<noteq> ''_XOPEN_SOURCE''"
    and "n \<noteq> ''YP_IMPORTED_FUNCTION''"
    and "n \<noteq> ''YP_EXPORTED_FUNCTION''"
    and "n \<noteq> ''YP_ATTRIBUTE_UNUSED''"
  shows "macros (defines_h s) n = macros s n"
  using assms by (simp add: macros_defines_h)

text \<open>
  The theorem on a Windows configuration: \<^verbatim>\<open>_WIN32\<close> and \<^verbatim>\<open>NDEBUG\<close> keep their
  definitions, \<^verbatim>\<open>__linux__\<close> stays undefined.
\<close>

theorem other_macros_untouched_witness:
  "macros (defines_h (predefined [(''_WIN32'', [''1'']), (''NDEBUG'', [])])) ''_WIN32''
     = Some (ObjectLike [''1''])
   \<and> macros (defines_h (predefined [(''_WIN32'', [''1'']), (''NDEBUG'', [])])) ''NDEBUG''
     = Some (ObjectLike [])
   \<and> macros (defines_h (predefined [(''_WIN32'', [''1'']), (''NDEBUG'', [])])) ''__linux__''
     = None"
  using other_macros_untouched
          [of "''_WIN32''" "predefined [(''_WIN32'', [''1'']), (''NDEBUG'', [])]"]
        other_macros_untouched
          [of "''NDEBUG''" "predefined [(''_WIN32'', [''1'']), (''NDEBUG'', [])]"]
        other_macros_untouched
          [of "''__linux__''" "predefined [(''_WIN32'', [''1'']), (''NDEBUG'', [])]"]
  by (simp add: macros_predefined)

end
